theory Spec2Isabelle
  imports Complex_Main "HOL-Library.Word"
begin

section \<open>Data shared by the detector and the orchestrator\<close>

text \<open>
  Audio is a Python \<open>bytes\<close> value. A timestamp is a reading of \<open>time.time()\<close>, a float
  taken here as the real number it denotes. The only arithmetic done on timestamps is
  the difference of two readings, compared with a threshold; the difference of two
  floats within a factor of two of each other is exact, so the comparison over the
  reals is the one the program makes for readings of a running clock. The readings are
  inputs, in no assumed order.
\<close>

type_synonym bytes = "8 word list"

type_synonym timestamp = real

section \<open>vad.py: the voice activity detector\<close>

text \<open>
  The fields of \<open>VoiceActivityDetector\<close>. The WebRTC classifier object \<open>self.vad\<close> is
  external; what it answers for a frame is an input of \<open>process_frame\<close> (see
  \<open>frame_env\<close>). The silence callback acts on a world \<open>'w\<close> that the detector does not
  own; it returns whether it returned normally (\<open>True\<close>) or raised, and the new world.
\<close>

record 'w vad =
  sample_rate :: int
  frame_duration_ms :: int
  silence_threshold_seconds :: real
  frame_size :: int
  is_speaking :: bool
  silence_start :: "timestamp option"
  speech_detected :: bool
  consecutive_silence :: int
  consecutive_speech :: int
  silence_padding_frames :: int
  speech_padding_frames :: int
  on_silence_detected :: "('w \<Rightarrow> bool \<times> 'w) option"

text \<open>
  What the environment answers during one call of \<open>process_frame\<close>:
  \<open>is_speech\<close> is the result of \<open>self.vad.is_speech(frame, self.sample_rate)\<close>, \<open>None\<close> when
  the call raises; \<open>clock_start\<close> is the reading of \<open>time.time()\<close> stored in
  \<open>silence_start\<close>; \<open>clock_check\<close> is the later reading from which the silence duration
  is computed.
\<close>

record frame_env =
  is_speech :: "bool option"
  clock_start :: timestamp
  clock_check :: timestamp

text \<open>
  \<open>int(a / 1000)\<close> for an integer \<open>a\<close>: the quotient truncated towards zero (as long as
  the float quotient is exact enough, which it is below \<open>2 ^ 53\<close>).
\<close>

definition int_div_1000 :: "int \<Rightarrow> int" where
  "int_div_1000 a = (if 0 \<le> a then a div 1000 else - ((- a) div 1000))"

definition vad_init :: "int \<Rightarrow> int \<Rightarrow> real \<Rightarrow> 'w vad" where
  "vad_init sr fd th =
     \<lparr> sample_rate = sr,
       frame_duration_ms = fd,
       silence_threshold_seconds = th,
       frame_size = int_div_1000 (sr * fd) * 2,
       is_speaking = False,
       silence_start = None,
       speech_detected = False,
       consecutive_silence = 0,
       consecutive_speech = 0,
       silence_padding_frames = 3,
       speech_padding_frames = 3,
       on_silence_detected = None \<rparr>"

definition reset :: "'w vad \<Rightarrow> 'w vad" where
  "reset v =
     v\<lparr> is_speaking := False,
        silence_start := None,
        speech_detected := False,
        consecutive_silence := 0,
        consecutive_speech := 0 \<rparr>"

definition set_silence_callback :: "('w \<Rightarrow> bool \<times> 'w) \<Rightarrow> 'w vad \<Rightarrow> 'w vad" where
  "set_silence_callback callback v = v\<lparr> on_silence_detected := Some callback \<rparr>"

text \<open>
  \<open>process_frame\<close> returns the boolean the Python method returns, the detector and the
  world. Every exception raised inside the \<open>try\<close> block (by the classifier or by the
  callback) is caught there and turned into the result \<open>False\<close>; the assignments made
  before the exception stay.
\<close>

definition process_frame ::
  "frame_env \<Rightarrow> bytes \<Rightarrow> 'w vad \<Rightarrow> 'w \<Rightarrow> bool \<times> 'w vad \<times> 'w" where
  "process_frame env frame v w =
     (if int (length frame) \<noteq> frame_size v then (False, v, w)
      else
        (case is_speech env of
           None \<Rightarrow> (False, v, w)
         | Some True \<Rightarrow>
             (let v1 = v\<lparr> consecutive_speech := consecutive_speech v + 1,
                         consecutive_silence := 0 \<rparr>;
                  v2 = (if consecutive_speech v1 \<ge> speech_padding_frames v1
                        then v1\<lparr> is_speaking := True,
                                 speech_detected := True,
                                 silence_start := None \<rparr>
                        else v1)
              in (True, v2, w))
         | Some False \<Rightarrow>
             (let v1 = v\<lparr> consecutive_silence := consecutive_silence v + 1,
                         consecutive_speech := 0 \<rparr>
              in if \<not> speech_detected v1 then (False, v1, w)
                 else
                   (let v2 = (if consecutive_silence v1 = silence_padding_frames v1
                                 \<and> silence_start v1 = None
                              then v1\<lparr> silence_start := Some (clock_start env) \<rparr>
                              else v1)
                    in (case silence_start v2 of
                          None \<Rightarrow> (False, v2, w)
                        | Some started \<Rightarrow>
                            (if clock_check env - started \<ge> silence_threshold_seconds v2
                             then
                               (case on_silence_detected v2 of
                                  None \<Rightarrow> (False, reset v2, w)
                                | Some callback \<Rightarrow>
                                    (case callback w of
                                       (True, w') \<Rightarrow> (False, reset v2, w')
                                     | (False, w') \<Rightarrow> (False, v2, w')))
                             else (False, v2, w)))))))"

text \<open>Feeding a sequence of frames, each with what the environment answers for it.\<close>

definition feed :: "'w vad \<times> 'w \<Rightarrow> (frame_env \<times> bytes) list \<Rightarrow> 'w vad \<times> 'w" where
  "feed s calls = foldl (\<lambda>(v, w) (env, frame). snd (process_frame env frame v w)) s calls"

text \<open>A callback that only counts how often it is invoked.\<close>

definition tick :: "nat \<Rightarrow> bool \<times> nat" where
  "tick n = (True, Suc n)"

text \<open>
  A callback instrumented with a counter of its invocations: the world is paired with
  the count, and the callback does to the world what it did before.
\<close>

definition counted :: "('w \<Rightarrow> bool \<times> 'w) \<Rightarrow> nat \<times> 'w \<Rightarrow> bool \<times> nat \<times> 'w" where
  "counted callback nw = (fst (callback (snd nw)), Suc (fst nw), snd (callback (snd nw)))"

subsection \<open>Vocabulary for statements about sequences of frames\<close>

text \<open>
  How one call of \<open>process_frame\<close> is classified: as speech, as silence, or dropped
  (wrong length, or the classifier raised) without touching the detector.
\<close>

datatype verdict = Speech | Silence | Dropped

definition verdict_of :: "int \<Rightarrow> frame_env \<times> bytes \<Rightarrow> verdict" where
  "verdict_of fs call =
     (if int (length (snd call)) \<noteq> fs then Dropped
      else (case is_speech (fst call) of
              None \<Rightarrow> Dropped
            | Some True \<Rightarrow> Speech
            | Some False \<Rightarrow> Silence))"

definition speech_count :: "int \<Rightarrow> (frame_env \<times> bytes) list \<Rightarrow> nat" where
  "speech_count fs calls = length (filter (\<lambda>call. verdict_of fs call = Speech) calls)"

text \<open>
  The number of silence-classified frames at the end of a sequence, most recent first,
  up to the most recent speech-classified frame; dropped frames are skipped.
\<close>

fun silent_run :: "verdict list \<Rightarrow> nat" where
  "silent_run [] = 0"
| "silent_run (Silence # vs) = Suc (silent_run vs)"
| "silent_run (Dropped # vs) = silent_run vs"
| "silent_run (Speech # vs) = 0"

definition trailing_silence :: "int \<Rightarrow> (frame_env \<times> bytes) list \<Rightarrow> nat" where
  "trailing_silence fs calls = silent_run (rev (map (verdict_of fs) calls))"

text \<open>The operations a client can apply to a detector after constructing it.\<close>

datatype 'w vad_op =
    Process_Frame frame_env bytes
  | Reset
  | Set_Silence_Callback "'w \<Rightarrow> bool \<times> 'w"

fun apply_op :: "'w vad \<times> 'w \<Rightarrow> 'w vad_op \<Rightarrow> 'w vad \<times> 'w" where
  "apply_op (v, w) (Process_Frame env frame) = snd (process_frame env frame v w)"
| "apply_op (v, w) Reset = (reset v, w)"
| "apply_op (v, w) (Set_Silence_Callback callback) = (set_silence_callback callback v, w)"

text \<open>At most one of the two consecutive-frame counters is nonzero.\<close>

definition counters_exclusive :: "'w vad \<Rightarrow> bool" where
  "counters_exclusive v = (consecutive_speech v = 0 \<or> consecutive_silence v = 0)"

text \<open>
  Progress of the detector towards its next silence callback, in speech-classified
  frames: three once speech is confirmed, the consecutive-speech count before.
\<close>

definition confirmation_progress :: "'w vad \<Rightarrow> int" where
  "confirmation_progress v = (if speech_detected v then 3 else consecutive_speech v)"


section \<open>Python strings\<close>

text \<open>
  A Python \<open>str\<close> is a sequence of Unicode code points. \<open>is_space\<close> is the set of code
  points that \<open>str.strip()\<close> removes (those for which \<open>str.isspace()\<close> holds); \<open>strip\<close> is
  \<open>str.strip()\<close> without arguments. A string is truthy when it is not empty.
\<close>

type_synonym pystr = "nat list"

definition ascii :: "string \<Rightarrow> pystr" where
  "ascii s = map of_char s"

definition is_space :: "nat \<Rightarrow> bool" where
  "is_space c =
     ((9 \<le> c \<and> c \<le> 13) \<or> (28 \<le> c \<and> c \<le> 32) \<or> c = 133 \<or> c = 160 \<or> c = 5760
      \<or> (8192 \<le> c \<and> c \<le> 8202) \<or> c = 8232 \<or> c = 8233 \<or> c = 8239 \<or> c = 8287
      \<or> c = 12288)"

definition strip :: "pystr \<Rightarrow> pystr" where
  "strip s = rev (dropWhile is_space (rev (dropWhile is_space s)))"

text \<open>Python slices \<open>xs[:n]\<close> and \<open>xs[n:]\<close> for an integer \<open>n\<close> of either sign.\<close>

definition slice_to :: "int \<Rightarrow> 'a list \<Rightarrow> 'a list" where
  "slice_to n xs = (if 0 \<le> n then take (nat n) xs else take (length xs - nat (- n)) xs)"

definition slice_from :: "int \<Rightarrow> 'a list \<Rightarrow> 'a list" where
  "slice_from n xs = (if 0 \<le> n then drop (nat n) xs else drop (length xs - nat (- n)) xs)"

section \<open>utils.py: the interview timer and the audio encoding\<close>

record interview_timer =
  duration_seconds :: int
  start_time :: "timestamp option"

definition interview_timer_init :: "int \<Rightarrow> interview_timer" where
  "interview_timer_init duration_minutes =
     \<lparr> duration_seconds = duration_minutes * 60, start_time = None \<rparr>"

definition timer_start :: "timestamp \<Rightarrow> interview_timer \<Rightarrow> interview_timer" where
  "timer_start now t = t\<lparr> start_time := Some now \<rparr>"

definition is_expired :: "timestamp \<Rightarrow> interview_timer \<Rightarrow> bool" where
  "is_expired now t =
     (case start_time t of
        None \<Rightarrow> False
      | Some started \<Rightarrow> now - started \<ge> real_of_int (duration_seconds t))"

text \<open>The text that \<open>encode_audio_to_base64\<close> returns for some audio bytes, kept symbolic.\<close>

datatype base64 = Base64 bytes

section \<open>text\_generation.py: the interviewer\<close>

datatype chat_role = System | User | Assistant

record interviewer_ai =
  messages :: "(chat_role \<times> pystr) list"

text \<open>
  \<open>completion\<close> is what \<open>self.client.chat.completions.create(...)\<close> answers as
  \<open>choices[0].message.content\<close>, \<open>None\<close> when the request raises. Both methods catch the
  exception and answer a fixed sentence; the user message stays appended.
\<close>

definition generate_response ::
  "pystr option \<Rightarrow> pystr \<Rightarrow> interviewer_ai \<Rightarrow> pystr \<times> interviewer_ai" where
  "generate_response completion user_transcript ai =
     (let ai1 = ai\<lparr> messages := messages ai @ [(User, user_transcript)] \<rparr>
      in case completion of
           None \<Rightarrow> (ascii ''I see. Could you tell me more about that?'', ai1)
         | Some assistant_message \<Rightarrow>
             (assistant_message,
              ai1\<lparr> messages := messages ai1 @ [(Assistant, assistant_message)] \<rparr>))"

definition closing_prompt :: "pystr \<Rightarrow> pystr" where
  "closing_prompt candidate =
     ascii ''The 10-minute interview with '' @ candidate
     @ ascii '' is now complete. Thank them warmly and professionally, and let them know what to expect next. Keep it brief.''"

definition generate_closing ::
  "pystr option \<Rightarrow> pystr \<Rightarrow> interviewer_ai \<Rightarrow> pystr \<times> interviewer_ai" where
  "generate_closing completion candidate ai =
     (let ai1 = ai\<lparr> messages := messages ai @ [(User, closing_prompt candidate)] \<rparr>
      in case completion of
           None \<Rightarrow>
             (ascii ''Thank you so much for your time today, '' @ candidate
                @ ascii ''. We'' @ [39] @ ascii ''ll be in touch soon!'', ai1)
         | Some assistant_message \<Rightarrow>
             (assistant_message,
              ai1\<lparr> messages := messages ai1 @ [(Assistant, assistant_message)] \<rparr>))"

section \<open>speech\_recognition.py: the recognizer\<close>

text \<open>
  \<open>connection\<close> tells whether \<open>self.connection\<close> is set. The live connection is external:
  \<open>sent_audio\<close> lists the chunks handed to \<open>connection.send\<close> and \<open>finish_calls\<close> counts the
  calls of \<open>connection.finish\<close>. Both methods catch every exception of the connection.
\<close>

record speech_recognizer =
  connection :: bool
  sent_audio :: "bytes list"
  finish_calls :: nat

definition send_audio :: "bytes \<Rightarrow> speech_recognizer \<Rightarrow> speech_recognizer" where
  "send_audio audio_data r =
     (if connection r then r\<lparr> sent_audio := sent_audio r @ [audio_data] \<rparr> else r)"

definition close :: "speech_recognizer \<Rightarrow> speech_recognizer" where
  "close r = (if connection r then r\<lparr> finish_calls := finish_calls r + 1 \<rparr> else r)"

section \<open>conversation.py: the conversation manager\<close>

datatype speaker = Interviewer | Candidate

text \<open>The JSON messages the manager sends through the websocket.\<close>

datatype payload =
    Ai_Response pystr base64
  | Stop_Ai_Audio
  | Interview_End pystr base64

text \<open>
  A coroutine handed to \<open>asyncio.create_task\<close>, or the rest of one that is suspended at
  its \<open>await self.websocket.send_json(...)\<close>.
\<close>

datatype task =
    Handle_Interruption pystr
  | Handle_Interruption_Sent pystr
  | Generate_And_Send_Response
  | Generate_And_Send_Response_Sent

text \<open>
  The fields of \<open>ConversationManager\<close> other than \<open>self.vad\<close>, which is kept beside this
  record (a conversation is a pair of both) because the detector's callback is a method
  of the manager. \<open>websocket\<close> is \<open>None\<close> while no websocket is set, and otherwise holds
  what the manager has sent through it, oldest first; a set websocket is truthy, and
  \<open>send_json\<close> on it is taken to deliver and not to raise. \<open>tasks\<close> are the tasks of the
  event loop that have not finished; the methods run inside the event loop, where
  \<open>asyncio.create_task\<close> does not raise. The synthesizer has no state; what it answers
  is an input of the methods that call it. \<open>resume_data\<close> is read by \<open>start_interview\<close>
  only, which is not part of this development, as is \<open>test_silence_task\<close>: a conversation
  is followed from the state in which \<open>start_interview\<close> leaves it.
\<close>

record conversation_manager =
  candidate_name :: pystr
  role :: pystr
  ai_interviewer :: interviewer_ai
  speech_recognizer :: speech_recognizer
  conversation_history :: "(speaker \<times> pystr) list"
  current_user_speech :: pystr
  is_ai_speaking :: bool
  interview_active :: bool
  timer :: interview_timer
  response_in_progress :: bool
  websocket :: "payload list option"
  audio_buffer :: bytes
  tasks :: "task list"

type_synonym conversation = "conversation_manager \<times> conversation_manager vad"

text \<open>How a method ends: by returning or by letting an exception escape.\<close>

datatype outcome = Returned | Raised

definition create_task :: "task \<Rightarrow> conversation_manager \<Rightarrow> conversation_manager" where
  "create_task t m = m\<lparr> tasks := tasks m @ [t] \<rparr>"

definition send_json :: "payload \<Rightarrow> conversation_manager \<Rightarrow> conversation_manager" where
  "send_json p m = m\<lparr> websocket := map_option (\<lambda>sent. sent @ [p]) (websocket m) \<rparr>"

definition on_silence_detected_cb :: "conversation_manager \<Rightarrow> bool \<times> conversation_manager" where
  "on_silence_detected_cb m =
     (if strip (current_user_speech m) \<noteq> [] \<and> \<not> is_ai_speaking m \<and> \<not> response_in_progress m
      then (True, create_task Generate_And_Send_Response m)
      else (True, m))"

definition conversation_manager_init :: "pystr \<Rightarrow> pystr \<Rightarrow> conversation" where
  "conversation_manager_init name position =
     (\<lparr> candidate_name = name,
        role = position,
        ai_interviewer = \<lparr> messages = [] \<rparr>,
        speech_recognizer = \<lparr> connection = False, sent_audio = [], finish_calls = 0 \<rparr>,
        conversation_history = [],
        current_user_speech = [],
        is_ai_speaking = False,
        interview_active = False,
        timer = interview_timer_init 10,
        response_in_progress = False,
        websocket = None,
        audio_buffer = [],
        tasks = [] \<rparr>,
      set_silence_callback on_silence_detected_cb (vad_init 16000 30 1))"

definition on_transcript_received :: "pystr \<Rightarrow> conversation_manager \<Rightarrow> conversation_manager" where
  "on_transcript_received transcript m =
     (if transcript \<noteq> [] then
        (if is_ai_speaking m then create_task (Handle_Interruption transcript) m
         else m\<lparr> current_user_speech := current_user_speech m @ [32] @ transcript \<rparr>)
      else m)"

subsection \<open>The coroutines\<close>

text \<open>
  A coroutine runs without interruption up to an \<open>await\<close> that suspends it. The only
  such point of the two task coroutines is \<open>await self.websocket.send_json(...)\<close>; whether
  that call suspends is up to the transport and is an input (\<open>send_suspends\<close>). Each
  coroutine is therefore given in two parts: from its start to the return of
  \<open>send_json\<close> (the result tells whether it is suspended there), and the rest.
  \<open>SpeechRecognizer.send_audio\<close> awaits nothing, so awaiting it never suspends
  \<open>process_audio_chunk\<close>.
\<close>

record task_env =
  completion :: "pystr option"
  synthesized :: "bytes option"
  send_suspends :: bool

definition handle_interruption_rest :: "pystr \<Rightarrow> conversation \<Rightarrow> conversation" where
  "handle_interruption_rest first_transcript s =
     (case s of (m, v) \<Rightarrow> (m\<lparr> current_user_speech := strip first_transcript \<rparr>, reset v))"

definition handle_interruption ::
  "task_env \<Rightarrow> pystr \<Rightarrow> conversation \<Rightarrow> conversation \<times> task option" where
  "handle_interruption env first_transcript s =
     (case s of (m, v) \<Rightarrow>
        (let m1 = m\<lparr> is_ai_speaking := False \<rparr>
         in case websocket m1 of
              None \<Rightarrow> (handle_interruption_rest first_transcript (m1, v), None)
            | Some sent \<Rightarrow>
                (let m2 = send_json Stop_Ai_Audio m1
                 in if send_suspends env
                    then ((m2, v), Some (Handle_Interruption_Sent first_transcript))
                    else (handle_interruption_rest first_transcript (m2, v), None))))"

text \<open>The \<open>finally\<close> clause of \<open>_generate_and_send_response\<close>.\<close>

definition generate_and_send_response_rest :: "conversation \<Rightarrow> conversation" where
  "generate_and_send_response_rest s =
     (case s of (m, v) \<Rightarrow> (m\<lparr> response_in_progress := False \<rparr>, v))"

definition generate_and_send_response ::
  "task_env \<Rightarrow> conversation \<Rightarrow> conversation \<times> task option" where
  "generate_and_send_response env s =
     (case s of (m, v) \<Rightarrow>
        if response_in_progress m then ((m, v), None)
        else
          (let m1 = m\<lparr> response_in_progress := True, is_ai_speaking := True \<rparr>;
               user_text = strip (current_user_speech m1);
               m2 = m1\<lparr> current_user_speech := [] \<rparr>;
               v1 = reset v;
               m3 = m2\<lparr> conversation_history :=
                           conversation_history m2 @ [(Candidate, user_text)] \<rparr>;
               (ai_response_text, ai) =
                  generate_response (completion env) user_text (ai_interviewer m3);
               m4 = m3\<lparr> ai_interviewer := ai,
                         conversation_history :=
                           conversation_history m3 @ [(Interviewer, ai_response_text)] \<rparr>
           in case synthesized env of
                None \<Rightarrow> (generate_and_send_response_rest (m4, v1), None)
              | Some ai_audio \<Rightarrow>
                  (case websocket m4 of
                     None \<Rightarrow> (generate_and_send_response_rest (m4, v1), None)
                   | Some sent \<Rightarrow>
                       (let m5 = send_json (Ai_Response ai_response_text (Base64 ai_audio)) m4
                        in if send_suspends env
                           then ((m5, v1), Some Generate_And_Send_Response_Sent)
                           else (generate_and_send_response_rest (m5, v1), None)))))"

text \<open>
  \<open>_end_interview\<close>. Its two awaits come after its last access to the manager's own
  fields, so it is given in one piece. When the synthesis raises, the exception escapes
  with the assignments made so far.
\<close>

record end_env =
  closing_completion :: "pystr option"
  closing_synthesized :: "bytes option"

definition end_interview :: "end_env \<Rightarrow> conversation_manager \<Rightarrow> outcome \<times> conversation_manager" where
  "end_interview env m =
     (if \<not> interview_active m then (Returned, m)
      else
        (let m1 = m\<lparr> interview_active := False \<rparr>;
             (closing_text, ai) =
                generate_closing (closing_completion env) (candidate_name m1) (ai_interviewer m1);
             m2 = m1\<lparr> ai_interviewer := ai \<rparr>
         in case closing_synthesized env of
              None \<Rightarrow> (Raised, m2)
            | Some closing_audio \<Rightarrow>
                (let m3 = (case websocket m2 of
                             None \<Rightarrow> m2
                           | Some sent \<Rightarrow>
                               send_json (Interview_End closing_text (Base64 closing_audio)) m2)
                 in (Returned, m3\<lparr> speech_recognizer := close (speech_recognizer m3) \<rparr>))))"

definition stop :: "conversation_manager \<Rightarrow> conversation_manager" where
  "stop m =
     (let m1 = m\<lparr> interview_active := False \<rparr>
      in m1\<lparr> speech_recognizer := close (speech_recognizer m1) \<rparr>)"

text \<open>
  The body of the loop of \<open>process_audio_chunk\<close>: the first \<open>frame_size\<close> bytes of the
  buffer are cut off and given to the detector, whose callback acts on the manager.
\<close>

definition take_frame :: "frame_env \<Rightarrow> int \<Rightarrow> conversation \<Rightarrow> conversation" where
  "take_frame env fs s =
     (case s of (m, v) \<Rightarrow>
        (case process_frame env (slice_to fs (audio_buffer m)) v
                (m\<lparr> audio_buffer := slice_from fs (audio_buffer m) \<rparr>) of
           (result, v1, m1) \<Rightarrow> (m1, v1)))"

text \<open>
  The loop itself, which feeds the detector with every complete frame of the buffer.
  \<open>envs k\<close> is what the environment answers for the \<open>k\<close>-th frame of the loop. The loop
  does not end when \<open>frame_size\<close> is not positive; the result \<open>None\<close> stands for that.
\<close>

partial_function (option) drain_frames ::
  "(nat \<Rightarrow> frame_env) \<Rightarrow> int \<Rightarrow> nat \<Rightarrow> conversation \<Rightarrow> conversation option" where
  "drain_frames envs fs k s =
     (if int (length (audio_buffer (fst s))) \<ge> fs
      then drain_frames envs fs (k + 1) (take_frame (envs k) fs s)
      else Some s)"

declare drain_frames.simps [code]

record chunk_env =
  now :: timestamp
  ending :: end_env
  frames :: "nat \<Rightarrow> frame_env"

definition process_audio_chunk ::
  "chunk_env \<Rightarrow> bytes \<Rightarrow> conversation \<Rightarrow> (outcome \<times> conversation) option" where
  "process_audio_chunk env audio_data s =
     (case s of (m, v) \<Rightarrow>
        if \<not> interview_active m then Some (Returned, m, v)
        else if is_expired (now env) (timer m) then
          (case end_interview (ending env) m of (res, m1) \<Rightarrow> Some (res, m1, v))
        else
          (let m1 = m\<lparr> speech_recognizer := send_audio audio_data (speech_recognizer m) \<rparr>
           in if is_ai_speaking m1 then Some (Returned, m1, v)
              else
                (let m2 = m1\<lparr> audio_buffer := audio_buffer m1 @ audio_data \<rparr>
                 in map_option (Pair Returned) (drain_frames (frames env) (frame_size v) 0 (m2, v)))))"

datatype control = Stop_Message | Ai_Audio_Completed | Other_Message

definition handle_websocket_message :: "control \<Rightarrow> conversation_manager \<Rightarrow> conversation_manager" where
  "handle_websocket_message message m =
     (case message of
        Stop_Message \<Rightarrow> stop m
      | Ai_Audio_Completed \<Rightarrow> m\<lparr> is_ai_speaking := False \<rparr>
      | Other_Message \<Rightarrow> m)"

subsection \<open>The event loop\<close>

text \<open>
  \<open>run_task i env\<close> lets the \<open>i\<close>-th unfinished task run up to its next suspension or
  its end; a task that stays suspended is put back.
\<close>

definition run_body :: "task_env \<Rightarrow> task \<Rightarrow> conversation \<Rightarrow> conversation \<times> task option" where
  "run_body env t s =
     (case t of
        Handle_Interruption transcript \<Rightarrow> handle_interruption env transcript s
      | Handle_Interruption_Sent transcript \<Rightarrow> (handle_interruption_rest transcript s, None)
      | Generate_And_Send_Response \<Rightarrow> generate_and_send_response env s
      | Generate_And_Send_Response_Sent \<Rightarrow> (generate_and_send_response_rest s, None))"

definition run_task :: "nat \<Rightarrow> task_env \<Rightarrow> conversation \<Rightarrow> conversation" where
  "run_task i env s =
     (case s of (m, v) \<Rightarrow>
        if i < length (tasks m) then
          (case run_body env (tasks m ! i) (m\<lparr> tasks := take i (tasks m) @ drop (Suc i) (tasks m) \<rparr>, v) of
             ((m1, v1), None) \<Rightarrow> (m1, v1)
           | ((m1, v1), Some t) \<Rightarrow> (create_task t m1, v1))
        else (m, v))"

text \<open>What can happen to a started conversation, one event at a time.\<close>

datatype event =
    Audio_Chunk chunk_env bytes
  | Transcript pystr
  | Control control
  | Stop
  | End_Interview end_env
  | Run_Task nat task_env

definition step :: "event \<Rightarrow> conversation \<Rightarrow> conversation option" where
  "step e s =
     (case s of (m, v) \<Rightarrow>
        (case e of
           Audio_Chunk env audio_data \<Rightarrow> map_option snd (process_audio_chunk env audio_data (m, v))
         | Transcript transcript \<Rightarrow> Some (on_transcript_received transcript m, v)
         | Control message \<Rightarrow> Some (handle_websocket_message message m, v)
         | Stop \<Rightarrow> Some (stop m, v)
         | End_Interview env \<Rightarrow> Some (snd (end_interview env m), v)
         | Run_Task i env \<Rightarrow> Some (run_task i env (m, v))))"

fun run_events :: "event list \<Rightarrow> conversation \<Rightarrow> conversation option" where
  "run_events [] s = Some s"
| "run_events (e # es) s = (case step e s of None \<Rightarrow> None | Some s1 \<Rightarrow> run_events es s1)"

text \<open>The payloads of one kind sent so far, and the requests made to the language model.\<close>

definition sent_payloads :: "conversation_manager \<Rightarrow> payload list" where
  "sent_payloads m = (case websocket m of None \<Rightarrow> [] | Some sent \<Rightarrow> sent)"

definition is_ai_response :: "payload \<Rightarrow> bool" where
  "is_ai_response p = (case p of Ai_Response text audio \<Rightarrow> True | _ \<Rightarrow> False)"

definition llm_requests :: "conversation_manager \<Rightarrow> nat" where
  "llm_requests m = length (filter (\<lambda>msg. fst msg = User) (messages (ai_interviewer m)))"

section \<open>Concrete inputs\<close>

text \<open>
  The detector as \<open>config.py\<close> configures it (16 kHz, 30 ms frames, one second of
  silence), with a callback that counts its invocations, and frames of 960 bytes.
\<close>

definition speech_env :: frame_env where
  "speech_env = \<lparr> is_speech = Some True, clock_start = 0, clock_check = 0 \<rparr>"

definition silence_env :: "timestamp \<Rightarrow> frame_env" where
  "silence_env t = \<lparr> is_speech = Some False, clock_start = t, clock_check = t \<rparr>"

definition failing_env :: frame_env where
  "failing_env = \<lparr> is_speech = None, clock_start = 0, clock_check = 0 \<rparr>"

definition pcm_frame :: bytes where
  "pcm_frame = replicate 960 0"

definition configured_vad :: "nat vad" where
  "configured_vad = set_silence_callback tick (vad_init 16000 30 1)"

text \<open>Three frames of speech followed by two of silence.\<close>

definition utterance :: "(frame_env \<times> bytes) list" where
  "utterance =
     [(speech_env, pcm_frame), (speech_env, pcm_frame), (speech_env, pcm_frame),
      (silence_env 0, pcm_frame), (silence_env 0, pcm_frame)]"

text \<open>
  A conversation as \<open>start_interview\<close> leaves it at time 0 for the candidate Ana: the
  websocket is set, the interview is active, the timer runs, the recognizer is
  connected, the greeting is in the history and is being played.
\<close>

definition ana :: pystr where
  "ana = ascii ''Ana''"

definition greeting :: pystr where
  "greeting = ascii ''Hello Ana, I am Nikki. Are you ready to begin?''"

definition started_manager :: conversation_manager where
  "started_manager =
     (fst (conversation_manager_init ana (ascii ''Engineer'')))
       \<lparr> websocket := Some [],
         interview_active := True,
         timer := timer_start 0 (interview_timer_init 10),
         ai_interviewer :=
           \<lparr> messages = [(System, ascii ''You are Nikki.''),
                          (User, ascii ''Introduce yourself.''),
                          (Assistant, greeting)] \<rparr>,
         conversation_history := [(Interviewer, greeting)],
         speech_recognizer := \<lparr> connection = True, sent_audio = [], finish_calls = 0 \<rparr>,
         is_ai_speaking := True \<rparr>"

definition started_vad :: "conversation_manager vad" where
  "started_vad = snd (conversation_manager_init ana (ascii ''Engineer''))"

definition started :: conversation where
  "started = (started_manager, started_vad)"

text \<open>The transcripts \<open>hi\<close> and \<open>hi\<close> after a blank.\<close>

definition hi :: pystr where
  "hi = [104, 105]"

definition blank_hi :: pystr where
  "blank_hi = [32, 104, 105]"

text \<open>
  An audio chunk of seven frames: three of speech, then four of silence read at the
  times \<open>t\<close>, \<open>t\<close>, \<open>t\<close> and \<open>t + 1\<close>, so that the silence lasts one second at the last frame.
\<close>

definition spoken_frames :: "timestamp \<Rightarrow> nat \<Rightarrow> frame_env" where
  "spoken_frames t k =
     (if k < 3 then speech_env else if k < 6 then silence_env t else silence_env (t + 1))"

definition spoken_chunk :: bytes where
  "spoken_chunk = replicate 6720 0"

definition no_ending :: end_env where
  "no_ending = \<lparr> closing_completion = None, closing_synthesized = None \<rparr>"

definition spoken :: "timestamp \<Rightarrow> chunk_env" where
  "spoken t = \<lparr> now = t, ending = no_ending, frames = spoken_frames t \<rparr>"

text \<open>The services answer, and \<open>send_json\<close> returns without suspending the task.\<close>

definition reply :: pystr where
  "reply = ascii ''Tell me more.''"

definition reply_audio :: bytes where
  "reply_audio = [1, 2, 3]"

definition answering :: task_env where
  "answering = \<lparr> completion = Some reply, synthesized = Some reply_audio, send_suspends = False \<rparr>"

text \<open>
  The started conversation after the greeting has been played, the candidate has said
  \<open>hi\<close> and the conversation has been stopped.
\<close>

definition stopped_manager :: conversation_manager where
  "stopped_manager =
     stop (on_transcript_received hi (handle_websocket_message Ai_Audio_Completed started_manager))"

text \<open>The closing remark is generated and synthesized.\<close>

definition closing_audio_bytes :: bytes where
  "closing_audio_bytes = [4, 5]"

definition closing :: end_env where
  "closing = \<lparr> closing_completion = Some (ascii ''Goodbye.''),
               closing_synthesized = Some closing_audio_bytes \<rparr>"

text \<open>
  The configured detector with the manager's own callback, counted; and the same
  detector after \<open>utterance\<close> and a third silent frame at time 5.
\<close>

definition counting_vad :: "(nat \<times> conversation_manager) vad" where
  "counting_vad = set_silence_callback (counted on_silence_detected_cb) (vad_init 16000 30 1)"

definition pausing_counting_vad :: "(nat \<times> conversation_manager) vad" where
  "pausing_counting_vad =
     counting_vad\<lparr> is_speaking := True, speech_detected := True,
                    consecutive_silence := 3, silence_start := Some 5 \<rparr>"

section \<open>The detector: auxiliary facts\<close>

lemma reset_sel [simp]:
  "is_speaking (reset v) = False"
  "silence_start (reset v) = None"
  "speech_detected (reset v) = False"
  "consecutive_silence (reset v) = 0"
  "consecutive_speech (reset v) = 0"
  "frame_size (reset v) = frame_size v"
  "silence_threshold_seconds (reset v) = silence_threshold_seconds v"
  "silence_padding_frames (reset v) = silence_padding_frames v"
  "speech_padding_frames (reset v) = speech_padding_frames v"
  "on_silence_detected (reset v) = on_silence_detected v"
  by (simp_all add: reset_def)

lemma reset_reset [simp]: "reset (reset v) = reset v"
  by (simp add: reset_def)

lemma feed_Nil [simp]: "feed s [] = s"
  by (simp add: feed_def)

lemma feed_Cons [simp]:
  "feed (v, w) ((env, frame) # calls) = feed (snd (process_frame env frame v w)) calls"
  by (simp add: feed_def)

lemma feed_append: "feed s (xs @ ys) = feed (feed s xs) ys"
  by (simp add: feed_def)

lemma feed_snoc:
  "feed s (xs @ [(env, frame)]) =
     snd (process_frame env frame (fst (feed s xs)) (snd (feed s xs)))"
  by (cases "feed s xs") (simp add: feed_append)

lemma process_frame_config:
  assumes "process_frame env frame v w = (r, v', w')"
  shows "frame_size v' = frame_size v"
    and "silence_threshold_seconds v' = silence_threshold_seconds v"
    and "silence_padding_frames v' = silence_padding_frames v"
    and "speech_padding_frames v' = speech_padding_frames v"
    and "on_silence_detected v' = on_silence_detected v"
  using assms
  by (auto simp: process_frame_def Let_def split: if_splits option.splits bool.splits prod.splits)

lemma feed_config:
  assumes "feed (v, w) calls = (v', w')"
  shows "frame_size v' = frame_size v \<and> silence_padding_frames v' = silence_padding_frames v
     \<and> speech_padding_frames v' = speech_padding_frames v
     \<and> on_silence_detected v' = on_silence_detected v
     \<and> silence_threshold_seconds v' = silence_threshold_seconds v"
  using assms
proof (induction calls arbitrary: v w)
  case Nil
  then show ?case by simp
next
  case (Cons c calls)
  obtain env frame where c: "c = (env, frame)" by (cases c)
  obtain r v1 w1 where p: "process_frame env frame v w = (r, v1, w1)"
    by (cases "process_frame env frame v w")
  from Cons.prems have "feed (v1, w1) calls = (v', w')" by (simp add: c p)
  from Cons.IH[OF this] process_frame_config[OF p] show ?case by simp
qed

lemma speech_count_snoc:
  "speech_count fs (calls @ [c]) = speech_count fs calls + (if verdict_of fs c = Speech then 1 else 0)"
  by (simp add: speech_count_def)

lemma trailing_silence_snoc:
  "trailing_silence fs (calls @ [c]) =
     (case verdict_of fs c of Speech \<Rightarrow> 0 | Silence \<Rightarrow> Suc (trailing_silence fs calls)
        | Dropped \<Rightarrow> trailing_silence fs calls)"
  by (cases "verdict_of fs c") (simp_all add: trailing_silence_def)

lemma speech_count_append:
  "speech_count fs (xs @ ys) = speech_count fs xs + speech_count fs ys"
  by (simp add: speech_count_def)

lemma silence_counter_bound:
  assumes z: "consecutive_silence v = 0"
    and f: "feed (v, w) calls = (v', w')"
  shows "0 \<le> consecutive_silence v' \<and>
         consecutive_silence v' \<le> int (trailing_silence (frame_size v) calls)"
  using f
proof (induction calls arbitrary: v' w' rule: rev_induct)
  case Nil
  then show ?case using z by (simp add: trailing_silence_def)
next
  case (snoc c calls)
  obtain env frame where c: "c = (env, frame)" by (cases c)
  obtain v1 w1 where f1: "feed (v, w) calls = (v1, w1)" by (cases "feed (v, w) calls")
  obtain r where p: "process_frame env frame v1 w1 = (r, v', w')"
    using snoc.prems by (cases "process_frame env frame v1 w1") (simp add: c feed_snoc f1)
  note ih = snoc.IH[OF f1]
  note cfg = feed_config[OF f1]
  from p ih cfg show ?case
    by (auto simp: c trailing_silence_snoc process_frame_def verdict_of_def Let_def reset_def
           split: if_splits option.splits bool.splits prod.splits)
qed

lemma configured_vad_sel [simp]:
  "frame_size configured_vad = 960"
  "speech_padding_frames configured_vad = 3"
  "silence_padding_frames configured_vad = 3"
  "silence_threshold_seconds configured_vad = 1"
  "on_silence_detected configured_vad = Some tick"
  "is_speaking configured_vad = False"
  "speech_detected configured_vad = False"
  "silence_start configured_vad = None"
  "consecutive_speech configured_vad = 0"
  "consecutive_silence configured_vad = 0"
  by (simp_all add: configured_vad_def vad_init_def set_silence_callback_def int_div_1000_def)

lemma pcm_frame_length [simp]: "length pcm_frame = 960"
  by (simp add: pcm_frame_def)

text \<open>
  Claim C6. A frame whose length differs from \<open>frame_size\<close> is rejected:
  \<open>process_frame\<close> returns the silence result \<open>False\<close> and leaves the whole detector
  record (counters, flags, silence timer, callback) and the callback's world unchanged.
\<close>
theorem wrong_length_frame_rejected:
  assumes "int (length frame) \<noteq> frame_size v"
  shows "process_frame env frame v w = (False, v, w)"
  using assms by (simp add: process_frame_def)

text \<open>The empty frame is rejected by the configured detector.\<close>
theorem wrong_length_frame_rejected_witness:
  "int (length ([] :: bytes)) \<noteq> frame_size configured_vad
   \<and> process_frame speech_env [] configured_vad 0 = (False, configured_vad, 0)"
  using wrong_length_frame_rejected[of "[]" configured_vad speech_env 0] by simp

text \<open>
  Claim C9. When the classifier raises on a frame of the right length, \<open>process_frame\<close>
  returns the silence result \<open>False\<close>, the exception does not escape (the call has a
  result), nothing is changed, and the frames that follow are processed exactly as if
  the failing frame had not been there.
\<close>
theorem classifier_failure_is_silence:
  assumes "int (length frame) = frame_size v" and "is_speech env = None"
  shows "process_frame env frame v w = (False, v, w)
       \<and> feed (v, w) ((env, frame) # post) = feed (v, w) post"
  using assms by (simp add: process_frame_def)

text \<open>A failing classifier call ahead of a speech frame, on the configured detector.\<close>
theorem classifier_failure_is_silence_witness:
  "int (length pcm_frame) = frame_size configured_vad \<and> is_speech failing_env = None
   \<and> process_frame failing_env pcm_frame configured_vad 0 = (False, configured_vad, 0)
   \<and> feed (configured_vad, 0) [(failing_env, pcm_frame), (speech_env, pcm_frame)]
       = feed (configured_vad, 0) [(speech_env, pcm_frame)]"
  using classifier_failure_is_silence[of pcm_frame configured_vad failing_env 0 "[(speech_env, pcm_frame)]"]
  by (simp add: failing_env_def)

lemma apply_op_exclusive:
  "counters_exclusive (fst s) \<Longrightarrow> counters_exclusive (fst (apply_op s op))"
  by (cases s; cases op)
     (auto simp: counters_exclusive_def process_frame_def Let_def reset_def set_silence_callback_def
           split: if_splits option.splits bool.splits prod.splits)

lemma run_ops_exclusive:
  "counters_exclusive (fst s) \<Longrightarrow> counters_exclusive (fst (foldl apply_op s ops))"
  by (induction ops arbitrary: s) (simp_all add: apply_op_exclusive)

text \<open>
  What the theorems below assume of a detector holds of every detector reached from the
  constructor: the padding is three frames and the counters are not negative.
\<close>

lemma apply_op_wellformed:
  assumes "speech_padding_frames (fst s) = 3 \<and> silence_padding_frames (fst s) = 3
           \<and> 0 \<le> consecutive_speech (fst s) \<and> 0 \<le> consecutive_silence (fst s)"
  shows "speech_padding_frames (fst (apply_op s op)) = 3
         \<and> silence_padding_frames (fst (apply_op s op)) = 3
         \<and> 0 \<le> consecutive_speech (fst (apply_op s op))
         \<and> 0 \<le> consecutive_silence (fst (apply_op s op))"
  using assms
  by (cases s; cases op)
     (auto simp: process_frame_def Let_def reset_def set_silence_callback_def
           split: if_splits option.splits bool.splits prod.splits)

lemma constructed_detector_wellformed:
  "speech_padding_frames (fst (foldl apply_op (vad_init sr fd th, w) ops)) = 3
   \<and> silence_padding_frames (fst (foldl apply_op (vad_init sr fd th, w) ops)) = 3
   \<and> 0 \<le> consecutive_speech (fst (foldl apply_op (vad_init sr fd th, w) ops))
   \<and> 0 \<le> consecutive_silence (fst (foldl apply_op (vad_init sr fd th, w) ops))"
proof (induction ops rule: rev_induct)
  case Nil
  show ?case by (simp add: vad_init_def)
next
  case (snoc op ops)
  from apply_op_wellformed[OF snoc.IH, of op] show ?case by simp
qed

lemma init_exclusive: "counters_exclusive (vad_init sr fd th)"
  by (simp add: counters_exclusive_def vad_init_def)

text \<open>
  Claim C10. At most one of the consecutive-speech and consecutive-silence counters is
  nonzero: after the constructor, after \<open>reset\<close>, after any sequence of operations applied
  to a constructed detector, and across every single \<open>process_frame\<close> call; a frame
  classified as speech zeroes the silence counter and a frame classified as silence
  zeroes the speech counter.
\<close>
theorem counters_exclusive_invariant:
  "counters_exclusive (vad_init sr fd th)
   \<and> counters_exclusive (reset v)
   \<and> counters_exclusive (fst (foldl apply_op (vad_init sr fd th, w) ops))
   \<and> (counters_exclusive v \<longrightarrow> counters_exclusive (fst (snd (process_frame env frame v w))))
   \<and> (verdict_of (frame_size v) (env, frame) = Speech
        \<longrightarrow> consecutive_silence (fst (snd (process_frame env frame v w))) = 0)
   \<and> (verdict_of (frame_size v) (env, frame) = Silence
        \<longrightarrow> consecutive_speech (fst (snd (process_frame env frame v w))) = 0)"
proof -
  note i = init_exclusive
  have r: "counters_exclusive (reset v)"
    by (simp add: counters_exclusive_def)
  have t: "counters_exclusive (fst (foldl apply_op (vad_init sr fd th, w) ops))"
    by (rule run_ops_exclusive) (simp add: init_exclusive)
  have p: "counters_exclusive v \<longrightarrow> counters_exclusive (fst (snd (process_frame env frame v w)))"
    using apply_op_exclusive[of "(v, w)" "Process_Frame env frame"] by simp
  have z1: "verdict_of (frame_size v) (env, frame) = Speech
        \<longrightarrow> consecutive_silence (fst (snd (process_frame env frame v w))) = 0"
    by (auto simp: verdict_of_def process_frame_def Let_def split: if_splits option.splits bool.splits)
  have z2: "verdict_of (frame_size v) (env, frame) = Silence
        \<longrightarrow> consecutive_speech (fst (snd (process_frame env frame v w))) = 0"
    by (auto simp: verdict_of_def process_frame_def Let_def reset_def
             split: if_splits option.splits bool.splits prod.splits)
  from init_exclusive r t p z1 z2 show ?thesis by blast
qed

text \<open>One speech frame and one silent frame on the configured detector.\<close>
theorem counters_exclusive_invariant_witness:
  "counters_exclusive configured_vad
   \<and> verdict_of (frame_size configured_vad) (speech_env, pcm_frame) = Speech
   \<and> verdict_of (frame_size configured_vad) (silence_env 0, pcm_frame) = Silence
   \<and> counters_exclusive (fst (snd (process_frame speech_env pcm_frame configured_vad 0)))
   \<and> consecutive_silence (fst (snd (process_frame speech_env pcm_frame configured_vad 0))) = 0
   \<and> consecutive_speech (fst (snd (process_frame (silence_env 0) pcm_frame configured_vad 0))) = 0"
proof -
  have h1: "counters_exclusive configured_vad"
    by (simp add: counters_exclusive_def)
  have h2: "verdict_of (frame_size configured_vad) (speech_env, pcm_frame) = Speech"
    by (simp add: verdict_of_def speech_env_def)
  have h3: "verdict_of (frame_size configured_vad) (silence_env 0, pcm_frame) = Silence"
    by (simp add: verdict_of_def silence_env_def)
  show ?thesis
    using h1 h2 h3
      counters_exclusive_invariant[of 16000 30 1 configured_vad 0 "[]" speech_env pcm_frame]
      counters_exclusive_invariant[of 16000 30 1 configured_vad 0 "[]" "silence_env 0" pcm_frame]
    by blast
qed

lemma speech_step:
  assumes "int (length frame) = frame_size v" "is_speech env = Some True"
  shows "process_frame env frame v w =
     (True,
      (if speech_padding_frames v \<le> consecutive_speech v + 1
       then v\<lparr> consecutive_speech := consecutive_speech v + 1, consecutive_silence := 0,
               is_speaking := True, speech_detected := True, silence_start := None \<rparr>
       else v\<lparr> consecutive_speech := consecutive_speech v + 1, consecutive_silence := 0 \<rparr>),
      w)"
  using assms by (simp add: process_frame_def Let_def)

lemma silence_step_unconfirmed:
  assumes "int (length frame) = frame_size v" "is_speech env = Some False" "\<not> speech_detected v"
  shows "process_frame env frame v w =
     (False, v\<lparr> consecutive_silence := consecutive_silence v + 1, consecutive_speech := 0 \<rparr>, w)"
  using assms by (simp add: process_frame_def Let_def)

text \<open>
  Claim C4. With the padding of three frames that the constructor sets: from a freshly
  reset detector the outcomes speech, speech, silence leave \<open>is_speaking\<close> false (also after
  each prefix); three consecutive speech-classified frames, from any state with a
  nonnegative speech counter, set \<open>is_speaking\<close> and \<open>speech_detected\<close> and clear
  \<open>silence_start\<close>; and in a run from a fresh detector \<open>silence_start\<close> goes from unset to set
  only on a silence-classified frame, after speech was confirmed, when the three most
  recent classified frames are silent.
\<close>
theorem detector_hysteresis:
  fixes v :: "'w vad"
  assumes pad: "speech_padding_frames v = 3" "silence_padding_frames v = 3"
    and len: "int (length f1) = frame_size v" "int (length f2) = frame_size v"
             "int (length f3) = frame_size v"
    and sp: "is_speech s1 = Some True" "is_speech s2 = Some True" "is_speech s3 = Some True"
    and si: "is_speech q = Some False"
  shows "\<not> is_speaking (fst (feed (reset v, w) [(s1, f1)]))
       \<and> \<not> is_speaking (fst (feed (reset v, w) [(s1, f1), (s2, f2)]))
       \<and> \<not> is_speaking (fst (feed (reset v, w) [(s1, f1), (s2, f2), (q, f3)]))
       \<and> (0 \<le> consecutive_speech v \<longrightarrow>
            is_speaking (fst (feed (v, w) [(s1, f1), (s2, f2), (s3, f3)]))
            \<and> speech_detected (fst (feed (v, w) [(s1, f1), (s2, f2), (s3, f3)]))
            \<and> silence_start (fst (feed (v, w) [(s1, f1), (s2, f2), (s3, f3)])) = None)
       \<and> (silence_start (fst (feed (reset v, w) calls)) = None
            \<and> silence_start (fst (feed (reset v, w) (calls @ [(env, frame)]))) \<noteq> None
            \<longrightarrow> speech_detected (fst (feed (reset v, w) calls))
                \<and> verdict_of (frame_size v) (env, frame) = Silence
                \<and> 3 \<le> trailing_silence (frame_size v) (calls @ [(env, frame)]))"
proof -
  have a1: "\<not> is_speaking (fst (feed (reset v, w) [(s1, f1)]))"
    using pad len sp by (simp add: speech_step)
  have a2: "\<not> is_speaking (fst (feed (reset v, w) [(s1, f1), (s2, f2)]))"
    using pad len sp by (simp add: speech_step)
  have a3: "\<not> is_speaking (fst (feed (reset v, w) [(s1, f1), (s2, f2), (q, f3)]))"
    using pad len sp si by (simp add: speech_step silence_step_unconfirmed)
  have b: "0 \<le> consecutive_speech v \<longrightarrow>
            is_speaking (fst (feed (v, w) [(s1, f1), (s2, f2), (s3, f3)]))
            \<and> speech_detected (fst (feed (v, w) [(s1, f1), (s2, f2), (s3, f3)]))
            \<and> silence_start (fst (feed (v, w) [(s1, f1), (s2, f2), (s3, f3)])) = None"
    using pad len sp by (simp add: speech_step)
  have c: "speech_detected (fst (feed (reset v, w) calls))
                \<and> verdict_of (frame_size v) (env, frame) = Silence
                \<and> 3 \<le> trailing_silence (frame_size v) (calls @ [(env, frame)])"
    if n: "silence_start (fst (feed (reset v, w) calls)) = None"
      and s: "silence_start (fst (feed (reset v, w) (calls @ [(env, frame)]))) \<noteq> None"
  proof -
    obtain v1 w1 where f1: "feed (reset v, w) calls = (v1, w1)"
      by (cases "feed (reset v, w) calls")
    obtain r v2 w2 where p: "process_frame env frame v1 w1 = (r, v2, w2)"
      by (cases "process_frame env frame v1 w1")
    from feed_config[OF f1] pad have cfg: "frame_size v1 = frame_size v"
      "silence_padding_frames v1 = 3" by simp_all
    from silence_counter_bound[OF _ f1]
    have bnd: "consecutive_silence v1 \<le> int (trailing_silence (frame_size v) calls)" by simp
    from n f1 have n1: "silence_start v1 = None" by simp
    from s f1 p have s2: "silence_start v2 \<noteq> None" by (simp add: feed_snoc)
    from p n1 s2 cfg have "speech_detected v1 \<and> verdict_of (frame_size v) (env, frame) = Silence
        \<and> consecutive_silence v1 + 1 = 3"
      by (auto simp: process_frame_def verdict_of_def Let_def reset_def
               split: if_splits option.splits bool.splits prod.splits)
    with bnd f1 show ?thesis by (simp add: trailing_silence_snoc)
  qed
  from a1 a2 a3 b c show ?thesis by blast
qed

lemmas eval_frame = process_frame_def Let_def speech_env_def silence_env_def tick_def

lemma feed_utterance:
  "feed (reset configured_vad, 0) utterance =
     (configured_vad\<lparr> is_speaking := True, speech_detected := True,
                      consecutive_silence := 2 \<rparr>, 0)"
  by (simp add: utterance_def eval_frame reset_def configured_vad_def vad_init_def
        set_silence_callback_def int_div_1000_def)

text \<open>The configured detector on \<open>utterance\<close> followed by a third silent frame.\<close>
theorem detector_hysteresis_witness:
  "speech_padding_frames configured_vad = 3 \<and> silence_padding_frames configured_vad = 3
   \<and> int (length pcm_frame) = frame_size configured_vad
   \<and> is_speech speech_env = Some True \<and> is_speech (silence_env 0) = Some False
   \<and> 0 \<le> consecutive_speech configured_vad
   \<and> silence_start (fst (feed (reset configured_vad, 0) utterance)) = None
   \<and> silence_start (fst (feed (reset configured_vad, 0::nat)
         (utterance @ [(silence_env 5, pcm_frame)]))) \<noteq> None
   \<and> \<not> is_speaking (fst (feed (reset configured_vad, 0::nat)
         [(speech_env, pcm_frame), (speech_env, pcm_frame), (silence_env 0, pcm_frame)]))
   \<and> is_speaking (fst (feed (configured_vad, 0::nat)
         [(speech_env, pcm_frame), (speech_env, pcm_frame), (speech_env, pcm_frame)]))
   \<and> 3 \<le> trailing_silence (frame_size configured_vad) (utterance @ [(silence_env 5, pcm_frame)])"
proof -
  have h: "speech_padding_frames configured_vad = 3" "silence_padding_frames configured_vad = 3"
    "int (length pcm_frame) = frame_size configured_vad"
    "is_speech speech_env = Some True" "is_speech (silence_env 0) = Some False"
    by (simp_all add: speech_env_def silence_env_def)
  have z: "0 \<le> consecutive_speech configured_vad" by simp
  have n: "silence_start (fst (feed (reset configured_vad, 0::nat) utterance)) = None"
    by (simp add: feed_utterance)
  have s: "silence_start (fst (feed (reset configured_vad, 0::nat)
         (utterance @ [(silence_env 5, pcm_frame)]))) \<noteq> None"
    by (simp add: feed_append feed_utterance eval_frame)
  show ?thesis
    using h z n s
      detector_hysteresis[OF h(1) h(2) h(3) h(3) h(3) h(4) h(4) h(4) h(5),
         of "0::nat" utterance "silence_env 5" pcm_frame]
    by blast
qed

lemma counted_step:
  assumes cb: "on_silence_detected v = Some (counted callback)"
    and ok: "\<forall>w. fst (callback w)"
    and p: "process_frame env frame v (n, w) = (r, v', n', w')"
  shows "(n' = n \<and> w' = w) \<or> (n' = Suc n \<and> w' = snd (callback w) \<and> r = False \<and> v' = reset v
        \<and> verdict_of (frame_size v) (env, frame) = Silence \<and> speech_detected v
        \<and> (\<exists>t0. (silence_start v = Some t0
                \<or> (silence_start v = None \<and> t0 = clock_start env
                    \<and> consecutive_silence v + 1 = silence_padding_frames v))
              \<and> silence_threshold_seconds v \<le> clock_check env - t0))"
  using assms
  by (auto simp: process_frame_def verdict_of_def Let_def counted_def reset_def
           split: if_splits option.splits bool.splits prod.splits)

lemma counted_potential_step:
  assumes cb: "on_silence_detected v = Some (counted callback)"
    and ok: "\<forall>w. fst (callback w)"
    and pad: "speech_padding_frames v = 3"
    and nn: "0 \<le> consecutive_speech v"
    and p: "process_frame env frame v (n, w) = (r, v', n', w')"
  shows "0 \<le> consecutive_speech v' \<and>
     3 * int n' + confirmation_progress v'
       \<le> 3 * int n + confirmation_progress v
          + int (speech_count (frame_size v) [(env, frame)])"
  using assms
  by (auto simp: process_frame_def verdict_of_def Let_def counted_def reset_def
             confirmation_progress_def speech_count_def
           split: if_splits option.splits bool.splits prod.splits)

lemma counted_potential:
  assumes cb: "on_silence_detected v = Some (counted callback)"
    and ok: "\<forall>w. fst (callback w)"
    and pad: "speech_padding_frames v = 3"
    and nn: "0 \<le> consecutive_speech v"
    and f: "feed (v, n, w) calls = (v', n', w')"
  shows "0 \<le> consecutive_speech v' \<and>
     3 * int n' + confirmation_progress v'
       \<le> 3 * int n + confirmation_progress v + int (speech_count (frame_size v) calls)"
  using f
proof (induction calls arbitrary: v' n' w' rule: rev_induct)
  case Nil
  then show ?case using nn by (simp add: speech_count_def)
next
  case (snoc c calls)
  obtain env frame where c: "c = (env, frame)" by (cases c)
  obtain v1 n1 w1 where f1: "feed (v, n, w) calls = (v1, n1, w1)"
    by (cases "feed (v, n, w) calls") auto
  obtain r where p: "process_frame env frame v1 (n1, w1) = (r, v', n', w')"
    using snoc.prems by (cases "process_frame env frame v1 (n1, w1)") (simp add: c feed_snoc f1)
  note ih = snoc.IH[OF f1]
  note cfg = feed_config[OF f1]
  have st: "0 \<le> consecutive_speech v' \<and>
     3 * int n' + confirmation_progress v'
       \<le> 3 * int n1 + confirmation_progress v1
          + int (speech_count (frame_size v1) [(env, frame)])"
    using cfg cb pad ih ok by (intro counted_potential_step[OF _ _ _ _ p]) simp_all
  have fs: "frame_size v1 = frame_size v" using cfg by simp
  have "3 * int n' + confirmation_progress v' \<le> 3 * int n + confirmation_progress v
      + int (speech_count (frame_size v) calls) + int (speech_count (frame_size v) [(env, frame)])"
    using st ih unfolding fs by linarith
  then show ?case using st by (simp add: c speech_count_append)
qed

section \<open>The conversation manager: auxiliary facts and claims\<close>


lemma drain_more:
  "fs \<le> int (length (audio_buffer (fst s))) \<Longrightarrow>
   drain_frames envs fs k s = drain_frames envs fs (k + 1) (take_frame (envs k) fs s)"
  by (subst drain_frames.simps) simp

lemma drain_done:
  "\<not> fs \<le> int (length (audio_buffer (fst s))) \<Longrightarrow> drain_frames envs fs k s = Some s"
  by (subst drain_frames.simps) simp

lemma strip_hi: "strip hi = hi" "strip blank_hi = hi" "strip (32 # hi) = hi" "strip [] = []"
  "hi \<noteq> []" "blank_hi \<noteq> []"
  by (simp_all add: strip_def hi_def blank_hi_def is_space_def)

lemmas eval_conv = started_def started_manager_def started_vad_def conversation_manager_init_def
  vad_init_def set_silence_callback_def int_div_1000_def interview_timer_init_def timer_start_def

lemmas eval_step = step_def handle_websocket_message_def on_transcript_received_def
  process_audio_chunk_def is_expired_def send_audio_def close_def stop_def
  drain_more drain_done take_frame_def slice_to_def slice_from_def
  on_silence_detected_cb_def create_task_def send_json_def reset_def
  run_task_def run_body_def generate_and_send_response_def generate_and_send_response_rest_def
  handle_interruption_def handle_interruption_rest_def generate_response_def
  end_interview_def generate_closing_def

lemmas eval_inputs = spoken_def spoken_chunk_def spoken_frames_def answering_def no_ending_def

lemma callback_returns: "fst (on_silence_detected_cb m)"
  by (simp add: on_silence_detected_cb_def)

lemma stopped_manager_eq:
  "stopped_manager =
     started_manager\<lparr> is_ai_speaking := False, current_user_speech := 32 # hi,
       interview_active := False,
       speech_recognizer := \<lparr> connection = True, sent_audio = [], finish_calls = 1 \<rparr> \<rparr>"
  by (simp add: stopped_manager_def stop_def close_def on_transcript_received_def
        handle_websocket_message_def Let_def eval_conv strip_hi)

lemma run_stop_then_task:
  "run_events [Control Ai_Audio_Completed, Transcript hi, Audio_Chunk (spoken 5) spoken_chunk,
       Stop, Run_Task 0 answering] started
   = Some (started_manager\<lparr> is_ai_speaking := True,
         current_user_speech := [],
         interview_active := False,
         speech_recognizer := \<lparr> connection = True, sent_audio = [spoken_chunk], finish_calls = 1 \<rparr>,
         conversation_history := [(Interviewer, greeting), (Candidate, hi), (Interviewer, reply)],
         ai_interviewer := \<lparr> messages = [(System, ascii ''You are Nikki.''), (User, ascii ''Introduce yourself.''), (Assistant, greeting), (User, hi), (Assistant, reply)] \<rparr>,
         websocket := Some [Ai_Response reply (Base64 reply_audio)],
         tasks := [] \<rparr>, started_vad)"
  by (simp add: eval_step eval_inputs eval_conv eval_frame strip_hi)

lemma run_two_silences:
  "run_events [Control Ai_Audio_Completed, Transcript hi, Audio_Chunk (spoken 5) spoken_chunk,
       Audio_Chunk (spoken 7) spoken_chunk, Run_Task 0 answering, Run_Task 0 answering] started
   = Some (started_manager\<lparr> is_ai_speaking := True,
         current_user_speech := [],
         speech_recognizer := \<lparr> connection = True, sent_audio = [spoken_chunk, spoken_chunk], finish_calls = 0 \<rparr>,
         conversation_history := [(Interviewer, greeting), (Candidate, hi), (Interviewer, reply),
            (Candidate, []), (Interviewer, reply)],
         ai_interviewer := \<lparr> messages = [(System, ascii ''You are Nikki.''), (User, ascii ''Introduce yourself.''), (Assistant, greeting), (User, hi), (Assistant, reply),
            (User, []), (Assistant, reply)] \<rparr>,
         websocket := Some [Ai_Response reply (Base64 reply_audio), Ai_Response reply (Base64 reply_audio)],
         tasks := [] \<rparr>, started_vad)"
  by (simp add: eval_step eval_inputs eval_conv eval_frame strip_hi)

lemma run_blank_transcript:
  "run_events [Transcript blank_hi, Run_Task 0 answering] started
   = Some (started_manager\<lparr> is_ai_speaking := False,
         current_user_speech := hi,
         websocket := Some [Stop_Ai_Audio],
         tasks := [] \<rparr>, started_vad)"
  by (simp add: eval_step eval_inputs eval_conv eval_frame strip_hi)


lemma chunk_while_speaking:
  assumes "interview_active m" "\<not> is_expired (now env) (timer m)" "is_ai_speaking m"
  shows "process_audio_chunk env chunk (m, v) =
     Some (Returned, m\<lparr> speech_recognizer := send_audio chunk (speech_recognizer m) \<rparr>, v)"
  using assms by (simp add: process_audio_chunk_def)

lemma chunks_while_speaking:
  assumes "interview_active m" "is_ai_speaking m"
    and "\<forall>call \<in> set calls. \<not> is_expired (now (fst call)) (timer m)"
  shows "run_events (map (\<lambda>call. Audio_Chunk (fst call) (snd call)) calls) (m, v) =
     Some (m\<lparr> speech_recognizer :=
               foldl (\<lambda>r chunk. send_audio chunk r) (speech_recognizer m) (map snd calls) \<rparr>, v)"
  using assms
proof (induction calls arbitrary: m)
  case Nil
  then show ?case by simp
next
  case (Cons c calls)
  let ?m1 = "m\<lparr> speech_recognizer := send_audio (snd c) (speech_recognizer m) \<rparr>"
  have st: "step (Audio_Chunk (fst c) (snd c)) (m, v) = Some (?m1, v)"
    using Cons.prems by (simp add: step_def chunk_while_speaking)
  have "run_events (map (\<lambda>call. Audio_Chunk (fst call) (snd call)) calls) (?m1, v) =
     Some (?m1\<lparr> speech_recognizer :=
               foldl (\<lambda>r chunk. send_audio chunk r) (speech_recognizer ?m1) (map snd calls) \<rparr>, v)"
    using Cons.prems by (intro Cons.IH) simp_all
  with st show ?case by simp
qed

lemma interruption_events:
  assumes "is_ai_speaking m" and "transcript \<noteq> []" and "websocket m = Some sent"
  shows "run_events [Transcript transcript, Run_Task (length (tasks m)) env,
                     Run_Task (length (tasks m)) env'] (m, v)
     = Some (m\<lparr> is_ai_speaking := False,
               websocket := Some (sent @ [Stop_Ai_Audio]),
               current_user_speech := strip transcript \<rparr>, reset v)"
  using assms
  by (simp add: step_def on_transcript_received_def create_task_def run_task_def run_body_def
        handle_interruption_def handle_interruption_rest_def send_json_def Let_def)

lemma stop_inactive:
  "\<not> interview_active m \<Longrightarrow> stop m = m\<lparr> speech_recognizer := close (speech_recognizer m) \<rparr>"
  by (simp add: stop_def Let_def)

lemma stop_sel:
  "interview_active (stop m) = False" "websocket (stop m) = websocket m"
  by (simp_all add: stop_def Let_def)

lemma end_inactive: "\<not> interview_active m \<Longrightarrow> end_interview env m = (Returned, m)"
  by (simp add: end_interview_def)

lemma end_sel: "interview_active (snd (end_interview env m)) = False"
  by (simp add: end_interview_def Let_def send_json_def split: prod.splits option.splits)

lemma run_body_active:
  "interview_active (fst (fst (run_body env t (m, v)))) = interview_active m"
  by (cases t)
     (simp_all add: run_body_def handle_interruption_def handle_interruption_rest_def
        generate_and_send_response_def generate_and_send_response_rest_def send_json_def Let_def
        split: prod.splits option.splits)

lemma run_task_active:
  "interview_active (fst (run_task i env (m, v))) = interview_active m"
proof (cases "i < length (tasks m)")
  case False
  then show ?thesis by (simp add: run_task_def)
next
  case True
  let ?m0 = "m\<lparr> tasks := take i (tasks m) @ drop (Suc i) (tasks m) \<rparr>"
  obtain m1 v1 k where r: "run_body env (tasks m ! i) (?m0, v) = ((m1, v1), k)"
    by (cases "run_body env (tasks m ! i) (?m0, v)") auto
  from run_body_active[of env "tasks m ! i" ?m0 v] r have "interview_active m1 = interview_active m"
    by simp
  with True r show ?thesis
    by (cases k) (simp_all add: run_task_def create_task_def)
qed

lemma step_inactive:
  assumes "\<not> interview_active (fst s)" and "step e s = Some s1"
  shows "\<not> interview_active (fst s1)"
proof -
  obtain m v where s: "s = (m, v)" by (cases s)
  show ?thesis
  proof (cases e)
    case (Audio_Chunk env audio_data)
    with assms s show ?thesis by (auto simp: step_def process_audio_chunk_def)
  next
    case (Transcript t)
    with assms s show ?thesis
      by (auto simp: step_def on_transcript_received_def create_task_def split: if_splits)
  next
    case (Control c)
    with assms s show ?thesis
      by (cases c) (auto simp: step_def handle_websocket_message_def stop_sel)
  next
    case Stop
    with assms s show ?thesis by (auto simp: step_def stop_sel)
  next
    case (End_Interview env)
    with assms s show ?thesis by (auto simp: step_def end_sel)
  next
    case (Run_Task i env)
    with assms s show ?thesis by (auto simp: step_def run_task_active)
  qed
qed

lemma run_events_inactive:
  "\<not> interview_active (fst s) \<Longrightarrow> run_events es s = Some s1 \<Longrightarrow> \<not> interview_active (fst s1)"
proof (induction es arbitrary: s)
  case Nil
  then show ?case by simp
next
  case (Cons e es)
  then show ?case by (auto split: option.splits dest: step_inactive)
qed

text \<open>
  Claim C7. While \<open>is_ai_speaking\<close> holds, the interview is active and the timer has not
  expired, a call of \<open>process_audio_chunk\<close> hands the chunk to the recognizer's
  \<open>send_audio\<close> and changes nothing else: the audio buffer, the detector and every other
  field stay as they are. The same holds for any sequence of such calls.
\<close>
theorem audio_ignored_while_ai_speaking:
  assumes "interview_active m" and "is_ai_speaking m"
    and "\<forall>call \<in> set calls. \<not> is_expired (now (fst call)) (timer m)"
  shows "run_events (map (\<lambda>call. Audio_Chunk (fst call) (snd call)) calls) (m, v) =
     Some (m\<lparr> speech_recognizer :=
               foldl (\<lambda>r chunk. send_audio chunk r) (speech_recognizer m) (map snd calls) \<rparr>, v)
     \<and> (\<forall>call \<in> set calls.
           process_audio_chunk (fst call) (snd call) (m, v) =
             Some (Returned,
                   m\<lparr> speech_recognizer := send_audio (snd call) (speech_recognizer m) \<rparr>, v))"
  using chunks_while_speaking[OF assms, of v] assms by (simp add: chunk_while_speaking)

text \<open>Two chunks arriving while the greeting is played.\<close>
theorem audio_ignored_while_ai_speaking_witness:
  "interview_active started_manager \<and> is_ai_speaking started_manager
   \<and> \<not> is_expired (now (spoken 5)) (timer started_manager)
   \<and> \<not> is_expired (now (spoken 7)) (timer started_manager)
   \<and> run_events [Audio_Chunk (spoken 5) spoken_chunk, Audio_Chunk (spoken 7) pcm_frame] started =
       Some (started_manager\<lparr> speech_recognizer :=
               send_audio pcm_frame (send_audio spoken_chunk (speech_recognizer started_manager)) \<rparr>,
             started_vad)"
proof -
  have h: "interview_active started_manager" "is_ai_speaking started_manager"
    by (simp_all add: eval_conv)
  have e: "\<forall>call \<in> set [(spoken 5, spoken_chunk), (spoken 7, pcm_frame)].
             \<not> is_expired (now (fst call)) (timer started_manager)"
    by (simp add: eval_conv is_expired_def spoken_def)
  show ?thesis
    using h e audio_ignored_while_ai_speaking[OF h e, of "started_vad"] by (simp add: started_def)
qed

text \<open>
  Claim C2, amended. For every nonempty transcript arriving while \<open>is_ai_speaking\<close> holds
  and a websocket is set, the interruption handler (scheduled by the transcript, then
  run to its end, whether or not it is suspended while sending) sends exactly one
  \<open>Stop_Ai_Audio\<close> payload, clears \<open>is_ai_speaking\<close>, resets the detector, and leaves the
  pending speech equal to the transcript with leading and trailing whitespace removed,
  replacing what was there.
\<close>
theorem interruption_replaces_pending_speech:
  assumes "is_ai_speaking m" and "transcript \<noteq> []" and "websocket m = Some sent"
  shows "run_events [Transcript transcript, Run_Task (length (tasks m)) env,
                     Run_Task (length (tasks m)) env'] (m, v)
     = Some (m\<lparr> is_ai_speaking := False,
               websocket := Some (sent @ [Stop_Ai_Audio]),
               current_user_speech := strip transcript \<rparr>, reset v)"
  using assms by (rule interruption_events)

text \<open>
  Claim C2 as stated fails: the transcript \<open>hi\<close> preceded by a blank, arriving while the
  greeting is played, leaves the pending speech equal to \<open>hi\<close>, not to the transcript.
\<close>
theorem interruption_strips_transcript:
  "map_option (current_user_speech \<circ> fst) (run_events [Transcript blank_hi, Run_Task 0 answering] started)
     = Some hi \<and> hi \<noteq> blank_hi"
  unfolding run_blank_transcript by (simp add: hi_def blank_hi_def)

text \<open>The transcript with a leading blank, interrupting the greeting.\<close>
theorem interruption_replaces_pending_speech_witness:
  "is_ai_speaking started_manager \<and> blank_hi \<noteq> [] \<and> websocket started_manager = Some []
   \<and> run_events [Transcript blank_hi, Run_Task 0 answering, Run_Task 0 answering] started
     = Some (started_manager\<lparr> is_ai_speaking := False,
               websocket := Some [Stop_Ai_Audio],
               current_user_speech := hi \<rparr>, started_vad)"
proof -
  have h: "is_ai_speaking started_manager" "blank_hi \<noteq> []" "websocket started_manager = Some []"
    by (simp_all add: eval_conv blank_hi_def)
  have t: "tasks started_manager = []" by (simp add: eval_conv)
  have r: "reset started_vad = started_vad" by (simp add: eval_conv reset_def)
  show ?thesis
    using h interruption_replaces_pending_speech[OF h, of answering answering "started_vad"]
    unfolding t r strip_hi started_def by simp
qed

text \<open>
  The single-flight guard: while the flag is set, a silence notification schedules
  nothing and a response generation returns at once, changing nothing.
\<close>

lemma silence_ignored_in_flight:
  "response_in_progress m \<Longrightarrow> on_silence_detected_cb m = (True, m)"
  by (simp add: on_silence_detected_cb_def)

lemma generation_guard:
  "response_in_progress m \<Longrightarrow> generate_and_send_response env (m, v) = ((m, v), None)"
  by (simp add: generate_and_send_response_def)

lemmas eval_task = generate_and_send_response_def generate_and_send_response_rest_def
  handle_interruption_def handle_interruption_rest_def send_json_def Let_def

text \<open>
  Claim C1 as stated fails: the candidate says \<open>hi\<close> and pauses, the detector schedules
  the response, the conversation is stopped before the scheduled task starts, and the
  task then sends its \<open>Ai_Response\<close> although \<open>interview_active\<close> is false.
\<close>
theorem response_sent_after_stop:
  "map_option (interview_active \<circ> fst)
      (run_events [Control Ai_Audio_Completed, Transcript hi, Audio_Chunk (spoken 5) spoken_chunk,
         Stop] started) = Some False
   \<and> map_option (sent_payloads \<circ> fst)
      (run_events [Control Ai_Audio_Completed, Transcript hi, Audio_Chunk (spoken 5) spoken_chunk,
         Stop] started) = Some []
   \<and> map_option (interview_active \<circ> fst)
      (run_events [Control Ai_Audio_Completed, Transcript hi, Audio_Chunk (spoken 5) spoken_chunk,
         Stop, Run_Task 0 answering] started) = Some False
   \<and> map_option (sent_payloads \<circ> fst)
      (run_events [Control Ai_Audio_Completed, Transcript hi, Audio_Chunk (spoken 5) spoken_chunk,
         Stop, Run_Task 0 answering] started) = Some [Ai_Response reply (Base64 reply_audio)]"
proof -
  have a: "run_events [Control Ai_Audio_Completed, Transcript hi, Audio_Chunk (spoken 5) spoken_chunk,
       Stop] started
   = Some (started_manager\<lparr> is_ai_speaking := False,
         current_user_speech := [32] @ hi,
         interview_active := False,
         speech_recognizer := \<lparr> connection = True, sent_audio = [spoken_chunk], finish_calls = 1 \<rparr>,
         tasks := [Generate_And_Send_Response] \<rparr>, started_vad)"
    by (simp add: eval_step eval_inputs eval_conv eval_frame strip_hi)
  show ?thesis unfolding a run_stop_then_task by (simp add: sent_payloads_def eval_conv)
qed

text \<open>
  Claim C1, amended. The emission points test only whether a websocket is set.
  \<open>generate_and_send_response\<close> never reads \<open>interview_active\<close> (changing the flag changes
  nothing but the flag in its result) and sends its \<open>Ai_Response\<close> whenever it passes the
  single-flight guard, the synthesis succeeds and a websocket is set; the interruption
  handler sends \<open>Stop_Ai_Audio\<close> whenever a websocket is set; \<open>end_interview\<close> sends
  \<open>Interview_End\<close> after it has cleared the flag.
\<close>
theorem emission_guarded_by_websocket:
  "generate_and_send_response env (m\<lparr> interview_active := b \<rparr>, v) =
     (case generate_and_send_response env (m, v) of
        ((m1, v1), rest) \<Rightarrow> ((m1\<lparr> interview_active := b \<rparr>, v1), rest))
   \<and> (\<not> response_in_progress m \<and> websocket m = Some sent \<and> synthesized env = Some audio \<longrightarrow>
        websocket (fst (fst (generate_and_send_response env (m, v)))) =
          Some (sent @ [Ai_Response
                  (fst (generate_response (completion env) (strip (current_user_speech m))
                          (ai_interviewer m)))
                  (Base64 audio)]))
   \<and> (websocket m = Some sent \<longrightarrow>
        websocket (fst (fst (handle_interruption env transcript (m, v)))) =
          Some (sent @ [Stop_Ai_Audio]))
   \<and> (interview_active m \<and> websocket m = Some sent \<and> closing_synthesized cenv = Some audio \<longrightarrow>
        \<not> interview_active (snd (end_interview cenv m))
        \<and> websocket (snd (end_interview cenv m)) =
          Some (sent @ [Interview_End
                  (fst (generate_closing (closing_completion cenv) (candidate_name m)
                          (ai_interviewer m)))
                  (Base64 audio)]))"
proof -
  have g: "generate_and_send_response env (m\<lparr> interview_active := b \<rparr>, v) =
     (case generate_and_send_response env (m, v) of
        ((m1, v1), rest) \<Rightarrow> ((m1\<lparr> interview_active := b \<rparr>, v1), rest))"
    by (simp add: eval_task generate_response_def split: prod.splits option.splits)
  have e: "websocket (fst (fst (generate_and_send_response env (m, v)))) =
          Some (sent @ [Ai_Response
                  (fst (generate_response (completion env) (strip (current_user_speech m))
                          (ai_interviewer m)))
                  (Base64 audio)])"
    if "\<not> response_in_progress m" "websocket m = Some sent" "synthesized env = Some audio"
    using that by (simp add: eval_task generate_response_def split: prod.splits option.splits)
  have i: "websocket (fst (fst (handle_interruption env transcript (m, v)))) =
          Some (sent @ [Stop_Ai_Audio])"
    if "websocket m = Some sent"
    using that by (simp add: eval_task)
  have c: "\<not> interview_active (snd (end_interview cenv m))
        \<and> websocket (snd (end_interview cenv m)) =
          Some (sent @ [Interview_End
                  (fst (generate_closing (closing_completion cenv) (candidate_name m)
                          (ai_interviewer m)))
                  (Base64 audio)])"
    if "interview_active m" "websocket m = Some sent" "closing_synthesized cenv = Some audio"
    using that
    by (simp add: end_interview_def send_json_def Let_def generate_closing_def
          split: prod.splits option.splits)
  from g e i c show ?thesis by blast
qed

text \<open>The stopped conversation still emits; the started one emits its closing remark.\<close>
theorem emission_guarded_by_websocket_witness:
  "\<not> response_in_progress stopped_manager \<and> websocket stopped_manager = Some []
   \<and> synthesized answering = Some reply_audio
   \<and> \<not> interview_active stopped_manager
   \<and> websocket (fst (fst (generate_and_send_response answering (stopped_manager, started_vad))))
       = Some [Ai_Response reply (Base64 reply_audio)]
   \<and> websocket (fst (fst (handle_interruption answering hi (stopped_manager, started_vad))))
       = Some [Stop_Ai_Audio]
   \<and> interview_active started_manager \<and> websocket started_manager = Some []
   \<and> closing_synthesized closing = Some closing_audio_bytes
   \<and> \<not> interview_active (snd (end_interview closing started_manager))
   \<and> websocket (snd (end_interview closing started_manager))
       = Some [Interview_End (ascii ''Goodbye.'') (Base64 closing_audio_bytes)]"
proof -
  have h: "\<not> response_in_progress stopped_manager" "websocket stopped_manager = Some []"
    "synthesized answering = Some reply_audio" "\<not> interview_active stopped_manager"
    by (simp_all add: stopped_manager_eq eval_conv answering_def)
  have k: "interview_active started_manager" "websocket started_manager = Some []"
    "closing_synthesized closing = Some closing_audio_bytes"
    by (simp_all add: eval_conv closing_def)
  have r: "fst (generate_response (completion answering) (strip (current_user_speech stopped_manager))
                 (ai_interviewer stopped_manager)) = reply"
    by (simp add: generate_response_def answering_def Let_def)
  have c: "fst (generate_closing (closing_completion closing) (candidate_name started_manager)
                 (ai_interviewer started_manager)) = ascii ''Goodbye.''"
    by (simp add: generate_closing_def closing_def Let_def)
  show ?thesis
    using h k
      emission_guarded_by_websocket[where env = answering and m = stopped_manager and v = started_vad
        and sent = "[]" and audio = reply_audio and transcript = hi and cenv = closing]
      emission_guarded_by_websocket[where env = answering and m = started_manager and v = started_vad
        and sent = "[]" and audio = closing_audio_bytes and transcript = hi and cenv = closing]
    unfolding r c by simp
qed

text \<open>
  Claim C3 on the code. Two silence notifications arrive before the event loop starts
  the first scheduled task (two utterances, each followed by a second of silence, in
  two chunks): both notifications schedule a task since the flag is set only when a task
  starts. The first task runs to its end (\<open>send_json\<close> returns without suspending it) and
  clears the flag, so the second runs too: two more requests to the language model and
  two \<open>Ai_Response\<close> payloads, the second for an empty candidate turn.
\<close>
theorem double_generation_after_two_silences:
  "map_option (tasks \<circ> fst)
      (run_events [Control Ai_Audio_Completed, Transcript hi, Audio_Chunk (spoken 5) spoken_chunk,
         Audio_Chunk (spoken 7) spoken_chunk] started)
     = Some [Generate_And_Send_Response, Generate_And_Send_Response]
   \<and> map_option (llm_requests \<circ> fst)
      (run_events [Control Ai_Audio_Completed, Transcript hi, Audio_Chunk (spoken 5) spoken_chunk,
         Audio_Chunk (spoken 7) spoken_chunk] started) = Some 1
   \<and> map_option (llm_requests \<circ> fst)
      (run_events [Control Ai_Audio_Completed, Transcript hi, Audio_Chunk (spoken 5) spoken_chunk,
         Audio_Chunk (spoken 7) spoken_chunk, Run_Task 0 answering, Run_Task 0 answering] started)
     = Some 3
   \<and> map_option (filter is_ai_response \<circ> sent_payloads \<circ> fst)
      (run_events [Control Ai_Audio_Completed, Transcript hi, Audio_Chunk (spoken 5) spoken_chunk,
         Audio_Chunk (spoken 7) spoken_chunk, Run_Task 0 answering, Run_Task 0 answering] started)
     = Some [Ai_Response reply (Base64 reply_audio), Ai_Response reply (Base64 reply_audio)]"
proof -
  have a: "run_events [Control Ai_Audio_Completed, Transcript hi, Audio_Chunk (spoken 5) spoken_chunk,
       Audio_Chunk (spoken 7) spoken_chunk] started
   = Some (started_manager\<lparr> is_ai_speaking := False,
         current_user_speech := [32] @ hi,
         speech_recognizer := \<lparr> connection = True, sent_audio = [spoken_chunk, spoken_chunk],
                                finish_calls = 0 \<rparr>,
         tasks := [Generate_And_Send_Response, Generate_And_Send_Response] \<rparr>, started_vad)"
    by (simp add: eval_step eval_inputs eval_conv eval_frame strip_hi)
  show ?thesis unfolding a run_two_silences
    by (simp add: sent_payloads_def llm_requests_def is_ai_response_def eval_conv)
qed

text \<open>
  Claim C8 as stated fails for \<open>stop\<close>: a second \<open>stop\<close> is not a no-op, it calls the
  recognizer's \<open>close\<close> again, which calls \<open>finish\<close> on the connection again.
\<close>
theorem second_stop_closes_again:
  "finish_calls (speech_recognizer (stop started_manager)) = 1
   \<and> finish_calls (speech_recognizer (stop (stop started_manager))) = 2
   \<and> stop (stop started_manager) \<noteq> stop started_manager"
proof -
  have a: "finish_calls (speech_recognizer (stop started_manager)) = 1"
    by (simp add: stop_def close_def Let_def eval_conv)
  have b: "finish_calls (speech_recognizer (stop (stop started_manager))) = 2"
    by (simp add: stop_def close_def Let_def eval_conv)
  from a b have "stop (stop started_manager) \<noteq> stop started_manager" by auto
  with a b show ?thesis by blast
qed

text \<open>
  Claim C8, amended. A second \<open>end_interview\<close> is a no-op, also after \<open>stop\<close>, so the
  single \<open>Interview_End\<close> payload is not repeated; \<open>stop\<close> sends nothing; both leave
  \<open>interview_active\<close> false, and no later event sets it again; a further \<open>stop\<close> changes
  nothing but the recognizer, on which \<open>close\<close> is called again.
\<close>
theorem stop_and_end_idempotent_on_session:
  "end_interview env2 (snd (end_interview env1 m)) = (Returned, snd (end_interview env1 m))
   \<and> end_interview env1 (stop m) = (Returned, stop m)
   \<and> \<not> interview_active (snd (end_interview env1 m))
   \<and> \<not> interview_active (stop m)
   \<and> websocket (stop m) = websocket m
   \<and> stop (stop m) = (stop m)\<lparr> speech_recognizer := close (speech_recognizer (stop m)) \<rparr>
   \<and> stop (snd (end_interview env1 m)) =
        (snd (end_interview env1 m))
          \<lparr> speech_recognizer := close (speech_recognizer (snd (end_interview env1 m))) \<rparr>
   \<and> (\<not> interview_active (fst s) \<and> run_events es s = Some s1 \<longrightarrow> \<not> interview_active (fst s1))"
  using run_events_inactive[of s es s1]
  by (simp add: end_inactive end_sel stop_sel stop_inactive)

text \<open>A transcript, a second stop and an end of interview after the conversation was stopped.\<close>
theorem stop_and_end_idempotent_on_session_witness:
  "\<not> interview_active (fst (stopped_manager, started_vad))
   \<and> run_events [Transcript hi, Stop, End_Interview closing] (stopped_manager, started_vad)
       = Some (stopped_manager\<lparr> current_user_speech := 32 # hi @ 32 # hi,
                 speech_recognizer := \<lparr> connection = True, sent_audio = [], finish_calls = 2 \<rparr> \<rparr>,
               started_vad)
   \<and> \<not> interview_active (fst (stopped_manager\<lparr> current_user_speech := 32 # hi @ 32 # hi,
                 speech_recognizer := \<lparr> connection = True, sent_audio = [], finish_calls = 2 \<rparr> \<rparr>,
               started_vad))"
proof -
  have h: "\<not> interview_active (fst (stopped_manager, started_vad))"
    by (simp add: stopped_manager_eq)
  have r: "run_events [Transcript hi, Stop, End_Interview closing] (stopped_manager, started_vad)
       = Some (stopped_manager\<lparr> current_user_speech := 32 # hi @ 32 # hi,
                 speech_recognizer := \<lparr> connection = True, sent_audio = [], finish_calls = 2 \<rparr> \<rparr>,
               started_vad)"
    by (simp add: stopped_manager_eq eval_step eval_conv strip_hi)
  show ?thesis
    using h r
      stop_and_end_idempotent_on_session[of closing closing stopped_manager "(stopped_manager, started_vad)"
        "[Transcript hi, Stop, End_Interview closing]"
        "(stopped_manager\<lparr> current_user_speech := 32 # hi @ 32 # hi,
                 speech_recognizer := \<lparr> connection = True, sent_audio = [], finish_calls = 2 \<rparr> \<rparr>,
               started_vad)"]
    by blast
qed

section \<open>The silence callback\<close>

text \<open>
  Claim C5. For a detector whose callback returns normally, instrumented with a counter
  of its invocations: one call of \<open>process_frame\<close> invokes the callback at most once, and
  when it does the frame was classified as silence, speech had been confirmed, the time
  since the stored (or just stored) silence start has reached the threshold, and the
  detector is left fully reset. Over any sequence of frames fed to a fresh detector,
  three times the number of invocations is at most the number of speech-classified
  frames: no invocation on leading silence, and each further invocation needs a newly
  confirmed episode.
\<close>
theorem silence_callback_discipline:
  fixes v :: "(nat \<times> 'w) vad"
  assumes cb: "on_silence_detected v = Some (counted callback)"
    and ok: "\<forall>w. fst (callback w)"
    and pad: "speech_padding_frames v = 3"
  shows "(process_frame env frame v (n, w) = (r, v', n', w') \<longrightarrow>
            (n' = n \<and> w' = w) \<or>
            (n' = Suc n \<and> w' = snd (callback w) \<and> r = False \<and> v' = reset v
             \<and> verdict_of (frame_size v) (env, frame) = Silence \<and> speech_detected v
             \<and> (\<exists>t0.
                   (silence_start v = Some t0
                    \<or> (silence_start v = None \<and> t0 = clock_start env
                        \<and> consecutive_silence v + 1 = silence_padding_frames v))
                   \<and> silence_threshold_seconds v \<le> clock_check env - t0)))
       \<and> (feed (reset v, m, w) calls = (u, k, w1) \<longrightarrow>
            3 * k \<le> 3 * m + speech_count (frame_size v) calls)"
proof -
  have run: "3 * k \<le> 3 * m + speech_count (frame_size v) calls"
    if f: "feed (reset v, m, w) calls = (u, k, w1)"
  proof -
    have "0 \<le> consecutive_speech u \<and>
       3 * int k + confirmation_progress u
         \<le> 3 * int m + confirmation_progress (reset v)
            + int (speech_count (frame_size (reset v)) calls)"
      using cb pad ok by (intro counted_potential[OF _ _ _ _ f]) simp_all
    moreover have "confirmation_progress (reset v) = 0" by (simp add: confirmation_progress_def)
    moreover have "0 \<le> consecutive_speech u \<Longrightarrow> 0 \<le> confirmation_progress u"
      by (simp add: confirmation_progress_def)
    ultimately have "3 * int k \<le> 3 * int m + int (speech_count (frame_size v) calls)"
      by simp
    then show ?thesis by linarith
  qed
  from counted_step[OF cb ok] run show ?thesis by blast
qed

lemma counting_vad_sel [simp]:
  "frame_size counting_vad = 960"
  "speech_padding_frames counting_vad = 3"
  "silence_padding_frames counting_vad = 3"
  "silence_threshold_seconds counting_vad = 1"
  "on_silence_detected counting_vad = Some (counted on_silence_detected_cb)"
  "is_speaking counting_vad = False"
  "speech_detected counting_vad = False"
  "silence_start counting_vad = None"
  "consecutive_speech counting_vad = 0"
  "consecutive_silence counting_vad = 0"
  by (simp_all add: counting_vad_def vad_init_def set_silence_callback_def int_div_1000_def)

lemma reset_counting_vad: "reset counting_vad = counting_vad"
  by (simp add: reset_def counting_vad_def vad_init_def set_silence_callback_def)

lemma feed_utterance_counting:
  "feed (counting_vad, 0, stopped_manager) (utterance @ [(silence_env 5, pcm_frame)]) =
     (pausing_counting_vad, 0, stopped_manager)"
  by (simp add: feed_append utterance_def eval_frame pausing_counting_vad_def)

lemma fire_counting:
  "process_frame (silence_env 6) pcm_frame pausing_counting_vad (0, stopped_manager)
     = (False, counting_vad, Suc 0, create_task Generate_And_Send_Response stopped_manager)"
  by (simp add: pausing_counting_vad_def eval_frame counted_def on_silence_detected_cb_def
        stopped_manager_eq strip_hi reset_def counting_vad_def vad_init_def set_silence_callback_def
        int_div_1000_def started_manager_def conversation_manager_init_def)

text \<open>
  The configured detector with the manager's callback fires once, one second into the
  pause after \<open>utterance\<close>, and the callback schedules the response.
\<close>

theorem silence_callback_discipline_witness:
  "on_silence_detected pausing_counting_vad = Some (counted on_silence_detected_cb)
   \<and> (\<forall>w. fst (on_silence_detected_cb w))
   \<and> speech_padding_frames pausing_counting_vad = 3
   \<and> process_frame (silence_env 6) pcm_frame pausing_counting_vad (0, stopped_manager)
        = (False, reset pausing_counting_vad, Suc 0, snd (on_silence_detected_cb stopped_manager))
   \<and> snd (on_silence_detected_cb stopped_manager)
        = create_task Generate_And_Send_Response stopped_manager
   \<and> feed (reset counting_vad, 0, stopped_manager)
        (utterance @ [(silence_env 5, pcm_frame), (silence_env 6, pcm_frame)])
      = (counting_vad, Suc 0, create_task Generate_And_Send_Response stopped_manager)
   \<and> verdict_of (frame_size pausing_counting_vad) (silence_env 6, pcm_frame) = Silence
   \<and> speech_detected pausing_counting_vad
   \<and> silence_threshold_seconds pausing_counting_vad \<le> clock_check (silence_env 6) - 5
   \<and> 3 * Suc 0 \<le> 3 * 0 + speech_count (frame_size counting_vad)
        (utterance @ [(silence_env 5, pcm_frame), (silence_env 6, pcm_frame)])"
proof -
  have h: "on_silence_detected pausing_counting_vad = Some (counted on_silence_detected_cb)"
    "\<forall>w. fst (on_silence_detected_cb w)"
    "speech_padding_frames pausing_counting_vad = 3"
    "on_silence_detected counting_vad = Some (counted on_silence_detected_cb)"
    "speech_padding_frames counting_vad = 3"
    by (simp_all add: pausing_counting_vad_def callback_returns)
  have rp: "reset pausing_counting_vad = counting_vad"
    by (simp add: pausing_counting_vad_def reset_def counting_vad_def vad_init_def
          set_silence_callback_def)
  have cb: "snd (on_silence_detected_cb stopped_manager)
        = create_task Generate_And_Send_Response stopped_manager"
    by (simp add: on_silence_detected_cb_def stopped_manager_eq strip_hi started_manager_def
          conversation_manager_init_def)
  have p: "process_frame (silence_env 6) pcm_frame pausing_counting_vad (0, stopped_manager)
        = (False, reset pausing_counting_vad, Suc 0, snd (on_silence_detected_cb stopped_manager))"
    unfolding rp cb by (rule fire_counting)
  have f: "feed (reset counting_vad, 0, stopped_manager)
        (utterance @ [(silence_env 5, pcm_frame), (silence_env 6, pcm_frame)])
      = (counting_vad, Suc 0, create_task Generate_And_Send_Response stopped_manager)"
  proof -
    have "feed (reset counting_vad, 0, stopped_manager)
        (utterance @ [(silence_env 5, pcm_frame), (silence_env 6, pcm_frame)])
      = feed (feed (counting_vad, 0, stopped_manager) (utterance @ [(silence_env 5, pcm_frame)]))
          [(silence_env 6, pcm_frame)]"
      using feed_append[of "(counting_vad, 0, stopped_manager)"
          "utterance @ [(silence_env 5, pcm_frame)]" "[(silence_env 6, pcm_frame)]"]
      by (simp add: reset_counting_vad)
    also have "\<dots> = feed (pausing_counting_vad, 0, stopped_manager) [(silence_env 6, pcm_frame)]"
      by (simp only: feed_utterance_counting)
    also have "\<dots> = (counting_vad, Suc 0, create_task Generate_And_Send_Response stopped_manager)"
      by (simp add: fire_counting)
    finally show ?thesis .
  qed
  have e: "silence_start pausing_counting_vad = Some 5" by (simp add: pausing_counting_vad_def)
  show ?thesis
    using h p f e cb
      silence_callback_discipline[OF h(1) h(2) h(3), of "silence_env 6" pcm_frame 0 stopped_manager False
          "reset pausing_counting_vad" "Suc 0" "snd (on_silence_detected_cb stopped_manager)"]
      silence_callback_discipline[OF h(4) h(2) h(5), where m = 0 and w = stopped_manager
          and calls = "utterance @ [(silence_env 5, pcm_frame), (silence_env 6, pcm_frame)]"
          and u = counting_vad and k = "Suc 0"
          and ?w1.0 = "create_task Generate_And_Send_Response stopped_manager"]
    by auto
qed

end
